theory Spec2Isabelle
  imports Main
begin

section \<open>The settings file\<close>

text \<open>
  The application keeps one JSON file, \<^verbatim>\<open>SETTINGS_FILE\<close>. Two classes read and
  write it: \<^verbatim>\<open>PlaylistManager\<close> (\<^verbatim>\<open>core/playlist_manager.py\<close>) and
  \<^verbatim>\<open>WallpaperEngine\<close> (\<^verbatim>\<open>core/wallpaper_engine.py\<close>).

  Modelling assumptions, stated once:
  \<^item> every key that is present in the file holds a value of the JSON type the code
    writes for it (a list of strings for \<^verbatim>\<open>current_playlist\<close>, an integer for
    \<^verbatim>\<open>current_index\<close>, and so on); a key may be absent, and then
    \<^verbatim>\<open>data.get(key, default)\<close> yields the default;
  \<^item> a file is either missing, not parsable as JSON (\<^verbatim>\<open>json.JSONDecodeError\<close>),
    parsable but not a JSON object (\<^verbatim>\<open>data.get\<close> raises \<^verbatim>\<open>AttributeError\<close>), or a
    JSON object;
  \<^item> a write either succeeds as a whole or raises before the file is changed; whether it
    succeeds is the flag \<open>writable\<close> of the file system;
  \<^item> Python's \<^verbatim>\<open>int\<close> is \<^typ>\<open>int\<close>; a Python string is a \<^typ>\<open>string\<close> whose
    characters are the code points 0 to 255.
\<close>

datatype setting_value = SStr string | SInt int | SBool bool

type_synonym settings_dict = "(string \<times> setting_value) list"

record wallpaper_state =
  ws_current_wallpaper :: "string option"
  ws_last_settings :: "settings_dict option"

record settings_json =
  j_playlists :: "(string \<times> string list) list option"
  j_recent :: "string list option"
  j_timer_interval :: "int option"
  j_custom_timer_text :: "string option"
  j_is_random :: "bool option"
  j_current_playlist :: "string list option"
  j_current_index :: "int option"
  j_is_playing :: "bool option"
  j_wallpaper_state :: "wallpaper_state option"

datatype file_content = Missing | Malformed | NotAnObject | Object settings_json

record file_system =
  settings_file :: file_content
  writable :: bool

datatype log_level = DEBUG | INFO | WARNING | ERROR

type_synonym log = "(log_level \<times> string) list"

text \<open>\<^verbatim>\<open>dict.get(key, default)\<close> on an optional key.\<close>

definition get_default :: "'a option \<Rightarrow> 'a \<Rightarrow> 'a" where
  "get_default v d = (case v of Some x \<Rightarrow> x | None \<Rightarrow> d)"

text \<open>Python's truth value of an \<^verbatim>\<open>Optional[str]\<close>: neither \<^verbatim>\<open>None\<close> nor empty.\<close>

definition truthy :: "string option \<Rightarrow> bool" where
  "truthy v = (case v of Some s \<Rightarrow> s \<noteq> [] | None \<Rightarrow> False)"

text \<open>The slice \<^verbatim>\<open>xs[-n:]\<close>: the last \<open>n\<close> elements.\<close>

definition last_n :: "nat \<Rightarrow> 'a list \<Rightarrow> 'a list" where
  "last_n n xs = drop (length xs - n) xs"

section \<open>PlaylistManager (core/playlist\_manager.py)\<close>

definition DEFAULT_TIMER_INTERVAL :: int where
  "DEFAULT_TIMER_INTERVAL = 60"

record playlist_manager =
  current_playlist :: "string list"
  current_index :: int
  is_playing :: bool
  is_random :: bool
  timer_interval :: int
  custom_timer_text :: "string option"
  recent_wallpapers :: "string list"
  playlists :: "(string \<times> string list) list"

text \<open>The field assignments of \<^verbatim>\<open>__init__\<close>, before it calls \<^verbatim>\<open>load_settings\<close>.\<close>

definition init_fields :: playlist_manager where
  "init_fields = \<lparr> current_playlist = [], current_index = 0, is_playing = False,
     is_random = False, timer_interval = DEFAULT_TIMER_INTERVAL, custom_timer_text = None,
     recent_wallpapers = [], playlists = [] \<rparr>"

text \<open>
  \<^verbatim>\<open>load_settings\<close>: returns the success flag, the manager and the lines it logs. Both
  \<^verbatim>\<open>except\<close> clauses are reached before any field has been assigned.
\<close>

definition load_settings :: "playlist_manager \<Rightarrow> file_system \<Rightarrow> bool \<times> playlist_manager \<times> log" where
  "load_settings pm fs =
     (case settings_file fs of
        Missing \<Rightarrow> (False, pm, [(INFO, ''settings file not found, using defaults'')])
      | Malformed \<Rightarrow> (False, pm, [(ERROR, ''settings file is not JSON'')])
      | NotAnObject \<Rightarrow> (False, pm, [(ERROR, ''error while loading settings'')])
      | Object data \<Rightarrow>
          (True,
           pm\<lparr> playlists := get_default (j_playlists data) [],
               recent_wallpapers := get_default (j_recent data) [],
               timer_interval := get_default (j_timer_interval data) DEFAULT_TIMER_INTERVAL,
               custom_timer_text := j_custom_timer_text data,
               is_random := get_default (j_is_random data) False,
               current_playlist := get_default (j_current_playlist data) [],
               current_index := get_default (j_current_index data) 0,
               is_playing := get_default (j_is_playing data) False \<rparr>,
           [(INFO, ''settings loaded'')]))"

definition PlaylistManager_init :: "file_system \<Rightarrow> playlist_manager \<times> log" where
  "PlaylistManager_init fs = snd (load_settings init_fields fs)"

text \<open>The dictionary \<^verbatim>\<open>data\<close> that \<^verbatim>\<open>save_settings\<close> dumps: exactly these eight keys.\<close>

definition settings_data :: "playlist_manager \<Rightarrow> settings_json" where
  "settings_data pm =
     \<lparr> j_playlists = Some (playlists pm),
       j_recent = Some (last_n 20 (recent_wallpapers pm)),
       j_timer_interval = Some (timer_interval pm),
       j_custom_timer_text = custom_timer_text pm,
       j_is_random = Some (is_random pm),
       j_current_playlist = Some (current_playlist pm),
       j_current_index = Some (current_index pm),
       j_is_playing = Some (is_playing pm),
       j_wallpaper_state = None \<rparr>"

definition save_settings :: "playlist_manager \<Rightarrow> file_system \<Rightarrow> bool \<times> file_system" where
  "save_settings pm fs =
     (if writable fs then (True, fs\<lparr> settings_file := Object (settings_data pm) \<rparr>)
      else (False, fs))"

definition add_to_current_playlist :: "string \<Rightarrow> playlist_manager \<Rightarrow> bool \<times> playlist_manager" where
  "add_to_current_playlist wallpaper_id pm =
     (if wallpaper_id = [] then (False, pm)
      else if wallpaper_id \<notin> set (current_playlist pm)
        then (True, pm\<lparr> current_playlist := current_playlist pm @ [wallpaper_id] \<rparr>)
      else (False, pm))"

text \<open>\<^verbatim>\<open>list.pop(i)\<close> for an index already checked to be in range.\<close>

definition pop_at :: "nat \<Rightarrow> 'a list \<Rightarrow> 'a list" where
  "pop_at i xs = take i xs @ drop (Suc i) xs"

definition remove_from_current_playlist :: "int \<Rightarrow> playlist_manager \<Rightarrow> bool \<times> playlist_manager" where
  "remove_from_current_playlist index pm =
     (if 0 \<le> index \<and> index < int (length (current_playlist pm)) then
        (let pl = pop_at (nat index) (current_playlist pm);
             ci = current_index pm;
             ci' = (if index \<le> ci \<and> ci > 0 then ci - 1
                    else if ci \<ge> int (length pl) \<and> pl \<noteq> [] then 0
                    else ci)
         in (True, pm\<lparr> current_playlist := pl, current_index := ci' \<rparr>))
      else (False, pm))"

definition clear_current_playlist :: "playlist_manager \<Rightarrow> playlist_manager" where
  "clear_current_playlist pm = pm\<lparr> current_playlist := [], current_index := 0, is_playing := False \<rparr>"

definition clear_current_wallpaper :: "playlist_manager \<Rightarrow> playlist_manager" where
  "clear_current_wallpaper pm = pm\<lparr> current_index := 0, is_playing := False \<rparr>"

definition get_current_wallpaper :: "playlist_manager \<Rightarrow> string option" where
  "get_current_wallpaper pm =
     (if current_playlist pm \<noteq> [] \<and> 0 \<le> current_index pm
         \<and> current_index pm < int (length (current_playlist pm))
      then Some (current_playlist pm ! nat (current_index pm))
      else None)"

text \<open>
  \<^verbatim>\<open>random.randint(0, n - 1)\<close> returns some integer between 0 and \<open>n - 1\<close>. The model
  takes the outcome from an entropy value \<open>r\<close> supplied by the caller and reduces it
  modulo \<open>n\<close>: every possible outcome \<open>k\<close> is the one of \<open>r = k\<close>.
\<close>

definition randint0 :: "nat \<Rightarrow> nat \<Rightarrow> int" where
  "randint0 r n = int (r mod n)"

definition get_next_wallpaper ::
  "bool \<Rightarrow> nat \<Rightarrow> playlist_manager \<Rightarrow> file_system \<Rightarrow> string option \<times> playlist_manager \<times> file_system" where
  "get_next_wallpaper random_mode r pm fs =
     (if current_playlist pm = [] then (None, pm, fs)
      else
        (let n = length (current_playlist pm);
             pm' = (if random_mode then pm\<lparr> current_index := randint0 r n \<rparr>
                    else pm\<lparr> current_index := (current_index pm + 1) mod int n \<rparr>)
         in (get_current_wallpaper pm', pm', snd (save_settings pm' fs))))"

definition get_previous_wallpaper ::
  "playlist_manager \<Rightarrow> file_system \<Rightarrow> string option \<times> playlist_manager \<times> file_system" where
  "get_previous_wallpaper pm fs =
     (if current_playlist pm = [] then (None, pm, fs)
      else
        (let pm' = pm\<lparr> current_index := (current_index pm - 1) mod int (length (current_playlist pm)) \<rparr>
         in (get_current_wallpaper pm', pm', snd (save_settings pm' fs))))"

subsection \<open>Sequences of playlist operations\<close>

datatype playlist_op = Add string | RemoveAt int | Advance bool nat | Retreat

fun apply_op :: "playlist_op \<Rightarrow> playlist_manager \<times> file_system \<Rightarrow> playlist_manager \<times> file_system" where
  "apply_op (Add w) (pm, fs) = (snd (add_to_current_playlist w pm), fs)"
| "apply_op (RemoveAt i) (pm, fs) = (snd (remove_from_current_playlist i pm), fs)"
| "apply_op (Advance random_mode r) (pm, fs) = snd (get_next_wallpaper random_mode r pm fs)"
| "apply_op Retreat (pm, fs) = snd (get_previous_wallpaper pm fs)"

definition run_ops :: "playlist_op list \<Rightarrow> playlist_manager \<times> file_system \<Rightarrow> playlist_manager \<times> file_system" where
  "run_ops ops s = foldl (\<lambda>s op. apply_op op s) s ops"

text \<open>The invariant of the spec's PlaylistState.\<close>

definition cursor_invariant :: "playlist_manager \<Rightarrow> bool" where
  "cursor_invariant pm =
     ((current_playlist pm \<noteq> [] \<longrightarrow>
         0 \<le> current_index pm \<and> current_index pm < int (length (current_playlist pm)))
      \<and> (current_playlist pm = [] \<longrightarrow> \<not> is_playing pm))"

text \<open>
  What the four operations maintain of it: the cursor is in range, and at 0 while the
  playlist is empty. None of the four writes \<open>is_playing\<close>.
\<close>

definition cursor_ok :: "playlist_manager \<Rightarrow> bool" where
  "cursor_ok pm =
     (0 \<le> current_index pm
      \<and> (current_index pm < int (length (current_playlist pm))
         \<or> (current_playlist pm = [] \<and> current_index pm = 0)))"

section \<open>WallpaperEngine (core/wallpaper\_engine.py)\<close>

text \<open>
  \<open>current_process\<close> is the \<^verbatim>\<open>Popen\<close> handle, represented by the PID of the child.
\<close>

record wallpaper_engine =
  current_wallpaper :: "string option"
  current_process :: "nat option"
  last_settings :: settings_dict

text \<open>The fields \<^verbatim>\<open>WallpaperEngine.__init__\<close> assigns before it loads anything.\<close>

definition new_engine :: wallpaper_engine where
  "new_engine = \<lparr> current_wallpaper = None, current_process = None, last_settings = [] \<rparr>"

record process =
  pid :: nat
  pname :: string
  cmdline :: "string list"

text \<open>
  What the operating system shows: the process table in the order
  \<^verbatim>\<open>psutil.process_iter\<close> yields it, and what running \<^verbatim>\<open>swww query\<close> gives.
  Each process carries a name and a list of command-line arguments, as the attributes
  \<^verbatim>\<open>['pid', 'name', 'cmdline']\<close> request.
\<close>

datatype swww_result = SwwwNotFound | SwwwTimeout | SwwwExit int string

record os_env =
  process_table :: "process list"
  swww_query :: swww_result

text \<open>
  \<^verbatim>\<open>stop_current_wallpaper\<close> receives the engine and the machine it runs on (the process
  table and the file system) and returns its result with all three.
\<close>

definition stop_current_wallpaper ::
  "wallpaper_engine \<Rightarrow> os_env \<Rightarrow> file_system \<Rightarrow> bool \<times> wallpaper_engine \<times> os_env \<times> file_system" where
  "stop_current_wallpaper eng env fs =
     (if truthy (current_wallpaper eng)
      then (True, eng\<lparr> current_wallpaper := None \<rparr>, env, fs)
      else (True, eng, env, fs))"

text \<open>\<^verbatim>\<open>_load_state\<close>: any exception is logged and leaves the fields as they are.\<close>

definition load_state :: "wallpaper_engine \<Rightarrow> file_system \<Rightarrow> wallpaper_engine" where
  "load_state eng fs =
     (case settings_file fs of
        Object data \<Rightarrow>
          (case j_wallpaper_state data of
             None \<Rightarrow> eng\<lparr> current_wallpaper := None, last_settings := [] \<rparr>
           | Some ws \<Rightarrow> eng\<lparr> current_wallpaper := ws_current_wallpaper ws,
                            last_settings := get_default (ws_last_settings ws) [] \<rparr>)
      | _ \<Rightarrow> eng)"

text \<open>
  \<^verbatim>\<open>_save_state\<close> reads the file, sets the key \<^verbatim>\<open>wallpaper_state\<close> in what it read
  and writes the whole dictionary back, so the other keys survive. A file that does not
  parse, or is not an object, raises and nothing is written.
\<close>

definition empty_json :: settings_json where
  "empty_json = \<lparr> j_playlists = None, j_recent = None, j_timer_interval = None,
     j_custom_timer_text = None, j_is_random = None, j_current_playlist = None,
     j_current_index = None, j_is_playing = None, j_wallpaper_state = None \<rparr>"

definition engine_state :: "wallpaper_engine \<Rightarrow> wallpaper_state" where
  "engine_state eng = \<lparr> ws_current_wallpaper = current_wallpaper eng,
                        ws_last_settings = Some (last_settings eng) \<rparr>"

definition save_state :: "wallpaper_engine \<Rightarrow> file_system \<Rightarrow> file_system" where
  "save_state eng fs =
     (case settings_file fs of
        Malformed \<Rightarrow> fs
      | NotAnObject \<Rightarrow> fs
      | Missing \<Rightarrow>
          (if writable fs
           then fs\<lparr> settings_file := Object (empty_json\<lparr> j_wallpaper_state := Some (engine_state eng) \<rparr>) \<rparr>
           else fs)
      | Object data \<Rightarrow>
          (if writable fs
           then fs\<lparr> settings_file := Object (data\<lparr> j_wallpaper_state := Some (engine_state eng) \<rparr>) \<rparr>
           else fs))"

section \<open>The refactored playlist flow (core\_refactored.py)\<close>

text \<open>
  \<^verbatim>\<open>Alias.PlaylistState\<close> and \<^verbatim>\<open>Collect.PlaylistData\<close> are class-level variables;
  together they are the state of \<^verbatim>\<open>Flow.PlaylistManager\<close>.
\<close>

record playlist_state =
  ps_current_playlist :: "string list"
  ps_timer_interval :: int
  ps_is_random :: bool
  ps_is_playing :: bool
  ps_current_index :: int
  ps_last_wallpaper :: "string option"
  shuffle_history :: "string list"
  saved_playlists :: "(string \<times> string list) list"
  ps_recent_wallpapers :: "string list"



definition Save_Settings :: "playlist_state \<Rightarrow> file_system \<Rightarrow> file_system" where
  "Save_Settings st fs =
     (if writable fs then
        fs\<lparr> settings_file := Object
          \<lparr> j_playlists = Some (saved_playlists st),
            j_recent = Some (ps_recent_wallpapers st),
            j_timer_interval = Some (ps_timer_interval st),
            j_custom_timer_text = None,
            j_is_random = Some (ps_is_random st),
            j_current_playlist = Some (ps_current_playlist st),
            j_current_index = Some (ps_current_index st),
            j_is_playing = Some (ps_is_playing st),
            j_wallpaper_state = None \<rparr> \<rparr>
      else fs)"

datatype error = IndexError

text \<open>
  \<^verbatim>\<open>random.choice(seq)\<close> raises \<^verbatim>\<open>IndexError\<close> on an empty sequence and otherwise
  returns one of its elements; which one is taken from the entropy value \<open>r\<close>.
\<close>

definition random_choice :: "nat \<Rightarrow> 'a list \<Rightarrow> error + 'a" where
  "random_choice r xs = (if xs = [] then Inl IndexError else Inr (xs ! (r mod length xs)))"

definition Get_Random_Wallpaper ::
  "nat \<Rightarrow> playlist_state \<Rightarrow> file_system \<Rightarrow> error + (string \<times> playlist_state \<times> file_system)" where
  "Get_Random_Wallpaper r st fs =
     (let playlist = ps_current_playlist st;
          available = filter (\<lambda>w. w \<notin> set (last_n 5 (shuffle_history st))) playlist;
          available' = (if available = [] then playlist else available);
          history = (if available = [] then [] else shuffle_history st)
      in case random_choice r available' of
           Inl e \<Rightarrow> Inl e
         | Inr selected \<Rightarrow>
             (let history' = history @ [selected];
                  history'' = (if length history' > 10 then tl history' else history');
                  st' = st\<lparr> shuffle_history := history'' \<rparr>
              in Inr (selected, st', Save_Settings st' fs)))"

definition Get_Sequential_Wallpaper ::
  "playlist_state \<Rightarrow> file_system \<Rightarrow> string \<times> playlist_state \<times> file_system" where
  "Get_Sequential_Wallpaper st fs =
     (let st' = st\<lparr> ps_current_index :=
                  (ps_current_index st + 1) mod int (length (ps_current_playlist st)) \<rparr>
      in (ps_current_playlist st' ! nat (ps_current_index st'), st', Save_Settings st' fs))"

definition Get_Next_Wallpaper ::
  "bool \<Rightarrow> nat \<Rightarrow> playlist_state \<Rightarrow> file_system
     \<Rightarrow> error + (string option \<times> playlist_state \<times> file_system)" where
  "Get_Next_Wallpaper random_flag r st fs =
     (if ps_current_playlist st = [] then Inr (None, st, fs)
      else if random_flag then
        (case Get_Random_Wallpaper r st fs of
           Inl e \<Rightarrow> Inl e
         | Inr (w, st', fs') \<Rightarrow> Inr (Some w, st', fs'))
      else (case Get_Sequential_Wallpaper st fs of (w, st', fs') \<Rightarrow> Inr (Some w, st', fs')))"

text \<open>
  Consecutive calls \<^verbatim>\<open>Get_Next_Wallpaper(True)\<close>, one per entropy value; the result is
  the list of identifiers returned, in call order, or the exception that stopped the run.
\<close>

fun random_run :: "nat list \<Rightarrow> playlist_state \<Rightarrow> file_system \<Rightarrow> error + string option list" where
  "random_run [] st fs = Inr []"
| "random_run (r # rs) st fs =
     (case Get_Next_Wallpaper True r st fs of
        Inl e \<Rightarrow> Inl e
      | Inr (w, st', fs') \<Rightarrow>
          (case random_run rs st' fs' of Inl e \<Rightarrow> Inl e | Inr ws \<Rightarrow> Inr (w # ws)))"

text \<open>No identifier is returned again within the next \<open>k\<close> calls.\<close>

definition no_repeat_within :: "nat \<Rightarrow> 'a list \<Rightarrow> bool" where
  "no_repeat_within k ws = (\<forall>j < length ws. \<forall>i < j. j - i \<le> k \<longrightarrow> ws ! i \<noteq> ws ! j)"

text \<open>
  \<open>avoids h ws\<close>: starting with the history \<open>h\<close>, each identifier of \<open>ws\<close> in turn is
  none of the last five entries of the history extended by the identifiers before it.
\<close>

fun avoids :: "'a list \<Rightarrow> 'a list \<Rightarrow> bool" where
  "avoids h [] = True"
| "avoids h (w # ws) = (w \<notin> set (last_n 5 h) \<and> avoids (h @ [w]) ws)"

section \<open>Strings and patterns\<close>

text \<open>
  The string tests of Python and the character classes of the \<^verbatim>\<open>re\<close> module, on
  the code points 0 to 255: \<^verbatim>\<open>\s\<close> and \<^verbatim>\<open>str.strip\<close> use \<open>isspace\<close>, \<^verbatim>\<open>\d\<close>
  uses \<open>isdecimal\<close>, \<^verbatim>\<open>str.isdigit\<close> also accepts the superscript digits, and
  \<^verbatim>\<open>\w\<close> is \<open>isword\<close>.
\<close>

definition isspace :: "char \<Rightarrow> bool" where
  "isspace c = (let n = (of_char c :: nat) in (9 \<le> n \<and> n \<le> 13) \<or> (28 \<le> n \<and> n \<le> 32) \<or> n = 133 \<or> n = 160)"

definition isdecimal :: "char \<Rightarrow> bool" where
  "isdecimal c = (let n = (of_char c :: nat) in 48 \<le> n \<and> n \<le> 57)"

definition isdigit_char :: "char \<Rightarrow> bool" where
  "isdigit_char c = (let n = (of_char c :: nat) in (48 \<le> n \<and> n \<le> 57) \<or> n = 178 \<or> n = 179 \<or> n = 185)"

definition isword :: "char \<Rightarrow> bool" where
  "isword c = (let n = (of_char c :: nat) in
     (48 \<le> n \<and> n \<le> 57) \<or> (65 \<le> n \<and> n \<le> 90) \<or> n = 95 \<or> (97 \<le> n \<and> n \<le> 122)
     \<or> n = 170 \<or> n = 178 \<or> n = 179 \<or> n = 181 \<or> n = 185 \<or> n = 186
     \<or> (188 \<le> n \<and> n \<le> 190) \<or> (192 \<le> n \<and> n \<le> 214) \<or> (216 \<le> n \<and> n \<le> 246)
     \<or> 248 \<le> n)"

text \<open>\<^verbatim>\<open>s.isdigit()\<close>: not empty and digits only.\<close>

definition isdigit :: "string \<Rightarrow> bool" where
  "isdigit s = (s \<noteq> [] \<and> list_all isdigit_char s)"

definition lower_char :: "char \<Rightarrow> char" where
  "lower_char c = (let n = (of_char c :: nat) in
     if (65 \<le> n \<and> n \<le> 90) \<or> (192 \<le> n \<and> n \<le> 214) \<or> (216 \<le> n \<and> n \<le> 222)
     then char_of (n + 32) else c)"

definition lower :: "string \<Rightarrow> string" where
  "lower s = map lower_char s"

text \<open>\<^verbatim>\<open>s.startswith(p)\<close> and \<^verbatim>\<open>p in s\<close>.\<close>

fun startswith :: "string \<Rightarrow> string \<Rightarrow> bool" where
  "startswith s [] = True"
| "startswith [] (p # ps) = False"
| "startswith (c # cs) (p # ps) = (c = p \<and> startswith cs ps)"

fun contains :: "string \<Rightarrow> string \<Rightarrow> bool" where
  "contains [] p = (p = [])"
| "contains (c # cs) p = (startswith (c # cs) p \<or> contains cs p)"

text \<open>\<^verbatim>\<open>' '.join(cmdline) if cmdline else ''\<close>.\<close>

fun join_spaces :: "string list \<Rightarrow> string" where
  "join_spaces [] = []"
| "join_spaces [x] = x"
| "join_spaces (x # y # r) = x @ CHR '' '' # join_spaces (y # r)"

text \<open>\<^verbatim>\<open>s.split(c)\<close> for a separator of one character, and \<^verbatim>\<open>s.strip()\<close>.\<close>

fun split_on :: "char \<Rightarrow> string \<Rightarrow> string list" where
  "split_on c [] = [[]]"
| "split_on c (x # xs) =
     (if x = c then [] # split_on c xs
      else (case split_on c xs of w # ws \<Rightarrow> (x # w) # ws | [] \<Rightarrow> [[x]]))"

definition strip :: "string \<Rightarrow> string" where
  "strip s = rev (dropWhile isspace (rev (dropWhile isspace s)))"

text \<open>
  \<^verbatim>\<open>re.search(pattern, s)\<close> tries the pattern at each position from the left and stops
  at the first position where it matches. The argument \<open>m\<close> is the pattern tried at the
  head of a string; it gives the text of group 1.
\<close>

fun re_search :: "(string \<Rightarrow> string option) \<Rightarrow> string \<Rightarrow> string option" where
  "re_search m [] = m []"
| "re_search m (c # cs) = (case m (c # cs) of Some g \<Rightarrow> Some g | None \<Rightarrow> re_search m cs)"

text \<open>
  The prefix \<^verbatim>\<open>(?:--dir\s+|/)\<close>: the text left after it. \<^verbatim>\<open>\s+\<close> takes all the
  white space there is; giving some back would leave white space where the group has to
  start with a digit or a letter.
\<close>

definition dir_or_slash :: "string \<Rightarrow> string option" where
  "dir_or_slash s =
     (if startswith s ''--dir'' \<and> (case drop 5 s of [] \<Rightarrow> False | c # _ \<Rightarrow> isspace c)
      then Some (dropWhile isspace (drop 5 s))
      else if startswith s ''/'' then Some (drop 1 s)
      else None)"

text \<open>
  The suffix \<^verbatim>\<open>(?:/|\s|$)\<close>; the \<^verbatim>\<open>$\<close> that matches before a final newline is
  covered by \<^verbatim>\<open>\s\<close>.
\<close>

definition id_terminator :: "string \<Rightarrow> bool" where
  "id_terminator rest = (case rest of [] \<Rightarrow> True | c # _ \<Rightarrow> c = CHR ''/'' \<or> isspace c)"

text \<open>
  \<^verbatim>\<open>(\d{8,12})(?:/|\s|$)\<close>: the run of digits is taken whole. Fewer digits than the
  run has leave a digit where the suffix has to match, so a run longer than 12 fails.
\<close>

definition workshop_group :: "string \<Rightarrow> string option" where
  "workshop_group t =
     (let d = takeWhile isdecimal t
      in if 8 \<le> length d \<and> length d \<le> 12 \<and> id_terminator (dropWhile isdecimal t)
         then Some d else None)"

text \<open>\<^verbatim>\<open>(custom_\d+|gif_\d+)(?:/|\s|$)\<close>.\<close>

definition numbered_group :: "string \<Rightarrow> string \<Rightarrow> string option" where
  "numbered_group word t =
     (let r = drop (length word) t; d = takeWhile isdecimal r
      in if startswith t word \<and> d \<noteq> [] \<and> id_terminator (dropWhile isdecimal r)
         then Some (word @ d) else None)"

definition custom_group :: "string \<Rightarrow> string option" where
  "custom_group t =
     (case numbered_group ''custom_'' t of Some g \<Rightarrow> Some g
      | None \<Rightarrow> numbered_group ''gif_'' t)"

definition workshop_pattern :: "string \<Rightarrow> string option" where
  "workshop_pattern s =
     re_search (\<lambda>t. case dir_or_slash t of None \<Rightarrow> None | Some u \<Rightarrow> workshop_group u) s"

definition custom_pattern :: "string \<Rightarrow> string option" where
  "custom_pattern s =
     re_search (\<lambda>t. case dir_or_slash t of None \<Rightarrow> None | Some u \<Rightarrow> custom_group u) s"

text \<open>\<^verbatim>\<open>/steamapps/workshop/content/431960/(\w+)/\<close>.\<close>

definition content_group :: "string \<Rightarrow> string option" where
  "content_group t =
     (let r = drop (length ''/steamapps/workshop/content/431960/'') t; w = takeWhile isword r
      in if startswith t ''/steamapps/workshop/content/431960/'' \<and> w \<noteq> []
            \<and> startswith (dropWhile isword r) ''/''
         then Some w else None)"

definition content_pattern :: "string \<Rightarrow> string option" where
  "content_pattern s = re_search content_group s"

text \<open>
  \<^verbatim>\<open>Path(arg).parent.name\<close>: a path is split at the slashes, empty components and
  single dots are dropped, and the name of the parent is the component before the last.
\<close>

definition path_components :: "string \<Rightarrow> string list" where
  "path_components arg = filter (\<lambda>c. c \<noteq> [] \<and> c \<noteq> ''.'') (split_on (CHR ''/'') arg)"

definition path_parent_name :: "string \<Rightarrow> string" where
  "path_parent_name arg =
     (let parts = path_components arg
      in if 2 \<le> length parts then parts ! (length parts - 2) else [])"






definition potential_id :: "string \<Rightarrow> bool" where
  "potential_id s = (s \<noteq> [] \<and> (isdigit s \<or> startswith s ''custom_''))"

text \<open>
  What it means for \<open>p\<close> to occur in \<open>s\<close>, in words: \<open>s\<close> is some text, then \<open>p\<close>,
  then some text. \<open>contains\<close> computes it.
\<close>

definition is_substring :: "string \<Rightarrow> string \<Rightarrow> bool" where
  "is_substring p s = (\<exists>a b. s = a @ p @ b)"

section \<open>Live detection in WallpaperEngine (core/wallpaper\_engine.py)\<close>

text \<open>
  \<^verbatim>\<open>_detect_running_wallpaper\<close> runs in \<^verbatim>\<open>WallpaperEngine.__init__\<close>, after
  \<^verbatim>\<open>_load_state\<close>. Its loop leaves at the first process whose name looks like the
  renderer and whose command line has an argument after \<^verbatim>\<open>--bg\<close>.
\<close>

text \<open>\<^verbatim>\<open>xs.index(x)\<close> for an \<open>x\<close> that is in \<open>xs\<close>: the first position.\<close>

definition index_of :: "'a \<Rightarrow> 'a list \<Rightarrow> nat" where
  "index_of x xs = length (takeWhile (\<lambda>y. y \<noteq> x) xs)"




section \<open>Probing for a running wallpaper (ui/main\_window.py)\<close>

definition cmdline_str :: "process \<Rightarrow> string" where
  "cmdline_str p = join_spaces (cmdline p)"

definition is_renderer :: "process \<Rightarrow> bool" where
  "is_renderer p =
     (contains (pname p) ''linux-wallpaperengine''
      \<or> list_ex (\<lambda>cmd. contains cmd ''linux-wallpaperengine'') (cmdline p))"

definition is_video_tool :: "process \<Rightarrow> bool" where
  "is_video_tool p =
     (contains (pname p) ''mpvpaper''
      \<or> list_ex (\<lambda>cmd. contains cmd ''mpvpaper'') (cmdline p)
      \<or> (pname p = ''mpv'' \<and> list_ex (\<lambda>cmd. contains (lower cmd) ''wallpaper'') (cmdline p)))"

text \<open>
  What the body of the loop in \<^verbatim>\<open>_detect_from_linux_wallpaperengine_process\<close>
  returns for one process: the loop goes on to the next process when this is \<open>None\<close>.
\<close>

definition renderer_id :: "process \<Rightarrow> string option" where
  "renderer_id p =
     (if is_renderer p then
        (case workshop_pattern (cmdline_str p) of
           Some w \<Rightarrow> Some w
         | None \<Rightarrow> custom_pattern (cmdline_str p))
      else None)"

fun first_id :: "(process \<Rightarrow> string option) \<Rightarrow> process list \<Rightarrow> string option" where
  "first_id f [] = None"
| "first_id f (p # ps) = (case f p of Some w \<Rightarrow> Some w | None \<Rightarrow> first_id f ps)"

definition detect_from_linux_wallpaperengine_process :: "os_env \<Rightarrow> string option" where
  "detect_from_linux_wallpaperengine_process env = first_id renderer_id (process_table env)"

fun video_arg_id :: "string list \<Rightarrow> string option" where
  "video_arg_id [] = None"
| "video_arg_id (arg # args) =
     (if contains arg ''/431960/'' \<and> potential_id (path_parent_name arg)
      then Some (path_parent_name arg)
      else video_arg_id args)"

definition video_id :: "process \<Rightarrow> string option" where
  "video_id p =
     (if is_video_tool p then
        (case content_pattern (cmdline_str p) of
           Some w \<Rightarrow> Some w
         | None \<Rightarrow> video_arg_id (cmdline p))
      else None)"

definition detect_from_video_wallpaper_process :: "os_env \<Rightarrow> string option" where
  "detect_from_video_wallpaper_process env = first_id video_id (process_table env)"

text \<open>The inner loop of \<^verbatim>\<open>_detect_from_swww\<close> over the parts of one line.\<close>

fun swww_part_id :: "string list \<Rightarrow> string option" where
  "swww_part_id [] = None"
| "swww_part_id (part # rest) =
     (if part = ''431960'' \<and> rest \<noteq> [] \<and> potential_id (hd rest)
      then Some (hd rest)
      else swww_part_id rest)"

fun swww_line_id :: "string list \<Rightarrow> string option" where
  "swww_line_id [] = None"
| "swww_line_id (line # lines) =
     (if contains line '':'' \<and> contains line ''/431960/'' then
        (case content_pattern line of
           Some w \<Rightarrow> Some w
         | None \<Rightarrow>
             (case swww_part_id (split_on (CHR ''/'') line) of
                Some w \<Rightarrow> Some w
              | None \<Rightarrow> swww_line_id lines))
      else swww_line_id lines)"

definition detect_from_swww :: "os_env \<Rightarrow> string option" where
  "detect_from_swww env =
     (case swww_query env of
        SwwwExit returncode out \<Rightarrow>
          (if returncode = 0 then swww_line_id (split_on (CHR 0x0A) (strip out)) else None)
      | SwwwTimeout \<Rightarrow> None
      | SwwwNotFound \<Rightarrow> None)"

definition is_swww_wallpaper_active :: "string \<Rightarrow> os_env \<Rightarrow> bool" where
  "is_swww_wallpaper_active wallpaper_id env = (detect_from_swww env = Some wallpaper_id)"

text \<open>
  \<^verbatim>\<open>_verify_wallpaper_process_running\<close>: two loops over the process table that
  return True at the first renderer (video tool) process whose joined command line
  contains the identifier, then the comparison with what swww reports.
\<close>

definition verify_wallpaper_process_running :: "string \<Rightarrow> os_env \<Rightarrow> bool" where
  "verify_wallpaper_process_running wallpaper_id env =
     (list_ex (\<lambda>p. is_renderer p \<and> contains (cmdline_str p) wallpaper_id) (process_table env)
      \<or> list_ex (\<lambda>p. is_video_tool p \<and> contains (cmdline_str p) wallpaper_id) (process_table env)
      \<or> is_swww_wallpaper_active wallpaper_id env)"

text \<open>
  \<^verbatim>\<open>_detect_active_wallpaper\<close> returns the identifier it settles on, with the engine,
  the playlist manager and the file system as it leaves them.
\<close>

definition verified :: "string option \<Rightarrow> os_env \<Rightarrow> bool" where
  "verified v env = (case v of Some w \<Rightarrow> verify_wallpaper_process_running w env | None \<Rightarrow> False)"

definition detect_active_wallpaper ::
  "wallpaper_engine \<Rightarrow> playlist_manager \<Rightarrow> file_system \<Rightarrow> os_env
     \<Rightarrow> string option \<times> wallpaper_engine \<times> playlist_manager \<times> file_system" where
  "detect_active_wallpaper eng pm fs env =
     (if truthy (current_wallpaper eng) \<and> verified (current_wallpaper eng) env
      then (current_wallpaper eng, eng, pm, fs)
      else
        (let eng' = (if truthy (current_wallpaper eng) then eng\<lparr> current_wallpaper := None \<rparr> else eng)
         in if truthy (detect_from_linux_wallpaperengine_process env)
              then (detect_from_linux_wallpaperengine_process env, eng', pm, fs)
            else if truthy (detect_from_video_wallpaper_process env)
              then (detect_from_video_wallpaper_process env, eng', pm, fs)
            else if truthy (detect_from_swww env)
              then (detect_from_swww env, eng', pm, fs)
            else if truthy (get_current_wallpaper pm) then
              (if verified (get_current_wallpaper pm) env
               then (get_current_wallpaper pm, eng', pm, fs)
               else (None, eng', clear_current_wallpaper pm,
                     snd (save_settings (clear_current_wallpaper pm) fs)))
            else (None, eng', pm, fs)))"

subsection \<open>The engine's own detection\<close>



section \<open>Restoring the state at startup (ui/main\_window.py)\<close>

text \<open>
  The parts of the main window that \<^verbatim>\<open>_restore_app_state\<close> reads and writes: the
  playlist manager, the engine, the playlist widget (its rows, each with the identifier
  stored as item data, its label for the current wallpaper, its play button and its
  random switch), the playlist timer, the toasts shown, and the machine. The selection of
  a wallpaper button in the gallery changes none of these and is left out. The process
  table and the answer of swww stay the same while the function runs, and the timer
  accepts every interval.
\<close>

record playlist_widget =
  w_items :: "string option list"
  w_current_wallpaper :: "string option"
  w_is_playing :: bool
  w_random_mode :: bool

record qtimer =
  active :: bool
  interval_ms :: int

datatype toast =
    Playlist_resumed string
  | Manual_playlist_stopped string
  | Manual_from_playlist string
  | Manual_from_gallery string
  | No_active_wallpaper

record app =
  app_pm :: playlist_manager
  app_engine :: wallpaper_engine
  app_widget :: playlist_widget
  app_timer :: qtimer
  app_toasts :: "toast list"
  app_fs :: file_system
  app_env :: os_env

definition get_playlist_items :: "playlist_widget \<Rightarrow> string list" where
  "get_playlist_items w = map the (filter truthy (w_items w))"

text \<open>
  Part 1 of \<^verbatim>\<open>_restore_app_state\<close>: the playlist, before any detection. When
  \<^verbatim>\<open>set_random_mode\<close> flips the radio button, Qt emits the mode signal and its
  handler saves the settings of the same manager once more; that extra write is not
  modelled.
\<close>

definition restore_playlist :: "app \<Rightarrow> app" where
  "restore_playlist a =
     (if current_playlist (app_pm a) = [] then a
      else
        (let pm = app_pm a;
             bad = (current_index pm \<ge> int (length (current_playlist pm)) \<or> current_index pm < 0);
             pm1 = (if bad then pm\<lparr> current_index := 0 \<rparr> else pm);
             fs1 = (if bad then snd (save_settings pm1 (app_fs a)) else app_fs a);
             w1 = (app_widget a)\<lparr> w_random_mode := is_random pm1 \<rparr>
         in if is_playing pm1 then
              a\<lparr> app_pm := pm1, app_fs := fs1,
                 app_widget := w1\<lparr> w_is_playing := True,
                   w_current_wallpaper :=
                     (if truthy (get_current_wallpaper pm1) then get_current_wallpaper pm1
                      else w_current_wallpaper w1) \<rparr>,
                 app_timer := \<lparr> active = True, interval_ms = timer_interval pm1 * 1000 \<rparr> \<rparr>
            else
              a\<lparr> app_pm := pm1, app_fs := fs1, app_widget := w1\<lparr> w_is_playing := False \<rparr> \<rparr>))"

text \<open>What \<^verbatim>\<open>_detect_active_wallpaper\<close> returns when \<^verbatim>\<open>_restore_app_state\<close> calls it.\<close>

definition detected_wallpaper :: "app \<Rightarrow> string option" where
  "detected_wallpaper a =
     fst (detect_active_wallpaper (app_engine (restore_playlist a)) (app_pm (restore_playlist a))
            (app_fs (restore_playlist a)) (app_env a))"

text \<open>Part 2: the three branches on \<open>is_playing\<close> and membership in the widget's rows.\<close>

definition sync_with_detected :: "string \<Rightarrow> app \<Rightarrow> app" where
  "sync_with_detected cw a =
     (let items = get_playlist_items (app_widget a);
          pm = app_pm a;
          a' =
            (if is_playing pm \<and> cw \<in> set items then
               (let pm' = pm\<lparr> current_index := int (index_of cw items) \<rparr>
                in a\<lparr> app_pm := pm',
                      app_fs := snd (save_settings pm' (app_fs a)),
                      app_widget := (app_widget a)\<lparr> w_is_playing := True \<rparr>,
                      app_timer := \<lparr> active = True, interval_ms = timer_interval pm' * 1000 \<rparr>,
                      app_toasts := app_toasts a @ [Playlist_resumed cw] \<rparr>)
             else if is_playing pm \<and> cw \<notin> set items then
               (let pm' = pm\<lparr> is_playing := False \<rparr>
                in a\<lparr> app_pm := pm',
                      app_widget := (app_widget a)\<lparr> w_is_playing := False \<rparr>,
                      app_timer := (app_timer a)\<lparr> active := False \<rparr>,
                      app_fs := snd (save_settings pm' (app_fs a)),
                      app_toasts := app_toasts a @ [Manual_playlist_stopped cw] \<rparr>)
             else
               (let pm' = pm\<lparr> is_playing := False \<rparr>
                in a\<lparr> app_pm := pm',
                      app_widget := (app_widget a)\<lparr> w_is_playing := False \<rparr>,
                      app_timer := (app_timer a)\<lparr> active := False \<rparr>,
                      app_fs := snd (save_settings pm' (app_fs a)),
                      app_toasts := app_toasts a @
                        [if cw \<in> set items then Manual_from_playlist cw else Manual_from_gallery cw] \<rparr>))
      in a'\<lparr> app_widget := (app_widget a')\<lparr> w_current_wallpaper := Some cw \<rparr> \<rparr>)"

definition restore_app_state :: "app \<Rightarrow> app" where
  "restore_app_state a =
     (let a1 = restore_playlist a
      in case detect_active_wallpaper (app_engine a1) (app_pm a1) (app_fs a1) (app_env a1) of
           (cw, eng, pm, fs) \<Rightarrow>
             (let a2 = a1\<lparr> app_engine := eng, app_pm := pm, app_fs := fs \<rparr>
              in if truthy cw then sync_with_detected (the cw) a2
                 else a2\<lparr> app_toasts := app_toasts a2 @ [No_active_wallpaper] \<rparr>))"

section \<open>Concrete inputs\<close>

definition no_file :: file_system where
  "no_file = \<lparr> settings_file = Missing, writable = True \<rparr>"


text \<open>
  A settings file as the application leaves it after a wallpaper was applied from a
  playing playlist: the playlist keys and the key \<^verbatim>\<open>wallpaper_state\<close>.
\<close>

definition example_file :: file_system where
  "example_file =
     \<lparr> settings_file = Object (empty_json\<lparr>
         j_current_playlist := Some [''A'', ''B''],
         j_current_index := Some 1,
         j_is_playing := Some True,
         j_wallpaper_state := Some \<lparr> ws_current_wallpaper = Some ''A'',
                                     ws_last_settings = Some [(''volume'', SInt 50)] \<rparr> \<rparr>),
       writable = True \<rparr>"

definition playlist_ABC :: "int \<Rightarrow> playlist_manager" where
  "playlist_ABC i = init_fields\<lparr> current_playlist := [''A'', ''B'', ''C''], current_index := i \<rparr>"

definition playlist_six :: playlist_manager where
  "playlist_six = init_fields\<lparr> current_playlist := [''A'', ''B'', ''C'', ''D'', ''E'', ''F''] \<rparr>"

definition state_six :: playlist_state where
  "state_six = \<lparr> ps_current_playlist = [''A'', ''B'', ''C'', ''D'', ''E'', ''F''],
     ps_timer_interval = 30, ps_is_random = True, ps_is_playing = False, ps_current_index = 0,
     ps_last_wallpaper = None, shuffle_history = [], saved_playlists = [],
     ps_recent_wallpapers = [] \<rparr>"

text \<open>Six entries, five distinct identifiers, and a history that holds all five.\<close>

definition state_five_distinct :: playlist_state where
  "state_five_distinct = state_six\<lparr>
     ps_current_playlist := [''A'', ''B'', ''C'', ''D'', ''E'', ''E''],
     shuffle_history := [''A'', ''B'', ''C'', ''D'', ''E''] \<rparr>"

definition renderer_proc :: "nat \<Rightarrow> string \<Rightarrow> process" where
  "renderer_proc n bg = \<lparr> pid = n, pname = ''linux-wallpaperengine'',
     cmdline = [''linux-wallpaperengine'', ''--bg'', bg] \<rparr>"


text \<open>
  One renderer, started the way \<^verbatim>\<open>WallpaperEngine.apply_wallpaper\<close> starts it, with
  the bare identifier after \<^verbatim>\<open>--bg\<close>; swww is not installed.
\<close>

definition env_bg :: os_env where
  "env_bg = \<lparr> process_table = [renderer_proc 100 ''1234567890''], swww_query = SwwwNotFound \<rparr>"


definition env_one :: os_env where
  "env_one = \<lparr> process_table = [renderer_proc 100 ''/w/12345678''], swww_query = SwwwNotFound \<rparr>"

text \<open>
  The application at startup: the playlist A, B was playing when the settings were
  saved, and the widget shows its two rows.
\<close>

definition app_playing :: "os_env \<Rightarrow> app" where
  "app_playing env =
     \<lparr> app_pm = init_fields\<lparr> current_playlist := [''A'', ''B''], is_playing := True \<rparr>,
       app_engine = new_engine,
       app_widget = \<lparr> w_items = [Some ''A'', Some ''B''], w_current_wallpaper = None,
                      w_is_playing = False, w_random_mode = False \<rparr>,
       app_timer = \<lparr> active = False, interval_ms = 0 \<rparr>,
       app_toasts = [],
       app_fs = example_file,
       app_env = env \<rparr>"

definition playing_A :: playlist_manager where
  "playing_A = init_fields\<lparr> current_playlist := [''A''], is_playing := True \<rparr>"

text \<open>
  The settings file that \<^verbatim>\<open>save_settings\<close> writes while the playlist A is playing,
  as the next start of the application finds it.
\<close>

definition file_playing_A :: file_system where
  "file_playing_A = \<lparr> settings_file = Object (settings_data playing_A), writable = True \<rparr>"

text \<open>One renderer, showing the wallpaper 123456789.\<close>

definition env_long :: os_env where
  "env_long = \<lparr> process_table = [renderer_proc 100 ''/w/123456789''], swww_query = SwwwNotFound \<rparr>"

section \<open>Properties\<close>

subsection \<open>The cursor\<close>

lemma add_to_current_playlist_cursor_ok:
  "cursor_ok pm \<Longrightarrow> cursor_ok (snd (add_to_current_playlist w pm))"
  by (auto simp: cursor_ok_def add_to_current_playlist_def)

lemma remove_from_current_playlist_cursor_ok:
  "cursor_ok pm \<Longrightarrow> cursor_ok (snd (remove_from_current_playlist i pm))"
  by (auto simp: cursor_ok_def remove_from_current_playlist_def pop_at_def Let_def)

lemma get_next_wallpaper_cursor_ok:
  "cursor_ok pm \<Longrightarrow> cursor_ok (fst (snd (get_next_wallpaper b r pm fs)))"
  by (auto simp: cursor_ok_def get_next_wallpaper_def Let_def randint0_def)

lemma get_previous_wallpaper_cursor_ok:
  "cursor_ok pm \<Longrightarrow> cursor_ok (fst (snd (get_previous_wallpaper pm fs)))"
  by (auto simp: cursor_ok_def get_previous_wallpaper_def Let_def)

lemma apply_op_cursor_ok: "cursor_ok (fst s) \<Longrightarrow> cursor_ok (fst (apply_op op s))"
  by (cases op; cases s)
     (simp_all add: add_to_current_playlist_cursor_ok remove_from_current_playlist_cursor_ok
        get_next_wallpaper_cursor_ok get_previous_wallpaper_cursor_ok)

lemma run_ops_cursor_ok: "cursor_ok (fst s) \<Longrightarrow> cursor_ok (fst (run_ops ops s))"
  unfolding run_ops_def
  by (induction ops arbitrary: s) (simp_all add: apply_op_cursor_ok)

lemma apply_op_is_playing: "is_playing (fst (apply_op op s)) = is_playing (fst s)"
  by (cases op; cases s)
     (simp_all add: add_to_current_playlist_def remove_from_current_playlist_def
        get_next_wallpaper_def get_previous_wallpaper_def Let_def)

lemma run_ops_is_playing: "is_playing (fst (run_ops ops s)) = is_playing (fst s)"
  unfolding run_ops_def
  by (induction ops arbitrary: s) (simp_all add: apply_op_is_playing)

text \<open>
  The cursor half of the invariant holds after every sequence of operations, from every
  state whose cursor is in range, playing or not.
\<close>

lemma run_ops_cursor_in_range:
  assumes "cursor_ok (fst s)" "current_playlist (fst (run_ops ops s)) \<noteq> []"
  shows "0 \<le> current_index (fst (run_ops ops s))
     \<and> current_index (fst (run_ops ops s)) < int (length (current_playlist (fst (run_ops ops s))))"
  using run_ops_cursor_ok [OF assms(1), of ops] assms(2) by (auto simp: cursor_ok_def)

lemma PlaylistManager_init_missing:
  "settings_file fs = Missing \<Longrightarrow> fst (PlaylistManager_init fs) = init_fields"
  by (simp add: PlaylistManager_init_def load_settings_def)

text \<open>
  On a manager created with no settings file the whole invariant holds after every
  sequence: \<open>is_playing\<close> starts false and stays false.
\<close>

lemma fresh_manager_cursor_invariant:
  assumes "settings_file fs = Missing"
  shows "cursor_invariant (fst (run_ops ops (fst (PlaylistManager_init fs), fs)))"
proof -
  have i: "fst (PlaylistManager_init fs) = init_fields"
    using assms by (rule PlaylistManager_init_missing)
  have "cursor_ok (fst (run_ops ops (init_fields, fs)))"
    by (rule run_ops_cursor_ok) (simp add: cursor_ok_def init_fields_def)
  moreover have "\<not> is_playing (fst (run_ops ops (init_fields, fs)))"
    by (simp add: run_ops_is_playing init_fields_def)
  ultimately show ?thesis unfolding i by (auto simp: cursor_ok_def cursor_invariant_def)
qed

text \<open>
  Claim C3. The application starts on the settings file it saved while the playlist A
  was playing: the manager holds the playlist A, the cursor 0 and \<open>is_playing\<close> true.
  Removing the entry at index 0 leaves the playlist empty and \<open>is_playing\<close> still
  true. \<^verbatim>\<open>clear_current_playlist\<close>, which also empties the playlist, does set
  \<open>is_playing\<close> to false.
\<close>

theorem remove_last_entry_leaves_playing:
  "current_playlist (fst (PlaylistManager_init file_playing_A)) = [''A'']
   \<and> current_index (fst (PlaylistManager_init file_playing_A)) = 0
   \<and> is_playing (fst (PlaylistManager_init file_playing_A))
   \<and> current_playlist (fst (run_ops [RemoveAt 0]
         (fst (PlaylistManager_init file_playing_A), file_playing_A))) = []
   \<and> is_playing (fst (run_ops [RemoveAt 0]
         (fst (PlaylistManager_init file_playing_A), file_playing_A)))
   \<and> current_playlist (clear_current_playlist (fst (PlaylistManager_init file_playing_A))) = []
   \<and> \<not> is_playing (clear_current_playlist (fst (PlaylistManager_init file_playing_A)))"
  by (simp add: file_playing_A_def playing_A_def settings_data_def init_fields_def
        PlaylistManager_init_def load_settings_def get_default_def run_ops_def
        remove_from_current_playlist_def pop_at_def clear_current_playlist_def Let_def)

text \<open>
  In terms of the invariant: it holds in that start state and fails after the removal.
\<close>

lemma remove_last_entry_while_playing:
  "cursor_invariant playing_A
   \<and> \<not> cursor_invariant (snd (remove_from_current_playlist 0 playing_A))"
  by (simp add: playing_A_def init_fields_def cursor_invariant_def remove_from_current_playlist_def
        pop_at_def Let_def)

text \<open>
  Claim C9. On the playlist A, B, C with the cursor at 2, a sequential advance returns A
  and leaves the cursor at 0; with the cursor at 0, a retreat returns C and leaves the
  cursor at 2. This holds whatever the file system does with the write that follows.
\<close>

theorem sequential_wrap_around:
  "fst (get_next_wallpaper False r (playlist_ABC 2) fs) = Some ''A''
   \<and> current_index (fst (snd (get_next_wallpaper False r (playlist_ABC 2) fs))) = 0
   \<and> fst (get_previous_wallpaper (playlist_ABC 0) fs) = Some ''C''
   \<and> current_index (fst (snd (get_previous_wallpaper (playlist_ABC 0) fs))) = 2"
  by (simp add: get_next_wallpaper_def get_previous_wallpaper_def get_current_wallpaper_def
        Let_def playlist_ABC_def init_fields_def)

subsection \<open>Stopping the current wallpaper\<close>

text \<open>
  Claim C10. \<^verbatim>\<open>stop_current_wallpaper\<close> returns True in every state. It returns the
  process table and the file system as it found them, and the engine with no field
  changed but \<open>current_wallpaper\<close>, which is cleared when it named a wallpaper; afterwards
  \<open>current_wallpaper\<close> names none, and \<open>last_settings\<close> and \<open>current_process\<close> are what
  they were.
\<close>

theorem stop_current_wallpaper_frame:
  "stop_current_wallpaper eng env fs =
     (True,
      eng\<lparr> current_wallpaper :=
             (if truthy (current_wallpaper eng) then None else current_wallpaper eng) \<rparr>,
      env, fs)
   \<and> \<not> truthy (current_wallpaper (fst (snd (stop_current_wallpaper eng env fs))))
   \<and> last_settings (fst (snd (stop_current_wallpaper eng env fs))) = last_settings eng
   \<and> current_process (fst (snd (stop_current_wallpaper eng env fs))) = current_process eng
   \<and> process_table (fst (snd (snd (stop_current_wallpaper eng env fs)))) = process_table env"
  by (simp add: stop_current_wallpaper_def truthy_def split: option.splits)

subsection \<open>Loading and saving\<close>



text \<open>
  The playlist keys do survive load, save, load: the second load gives the state of the
  first, with the recent list cut to its last 20 entries.
\<close>

lemma playlist_round_trip:
  assumes "settings_file fs = Object d" "writable fs"
  shows "fst (PlaylistManager_init (snd (save_settings (fst (PlaylistManager_init fs)) fs)))
       = (fst (PlaylistManager_init fs))
           \<lparr> recent_wallpapers := last_n 20 (recent_wallpapers (fst (PlaylistManager_init fs))) \<rparr>"
  using assms
  by (simp add: PlaylistManager_init_def load_settings_def save_settings_def settings_data_def
        get_default_def init_fields_def)

lemma save_settings_drops_wallpaper_state:
  "writable fs \<Longrightarrow>
     load_state eng (snd (save_settings pm fs)) = eng\<lparr> current_wallpaper := None, last_settings := [] \<rparr>"
  by (simp add: save_settings_def load_state_def settings_data_def)

lemma save_state_keeps_playlist_keys:
  "settings_file fs = Object d \<Longrightarrow>
     fst (PlaylistManager_init (save_state eng fs)) = fst (PlaylistManager_init fs)"
  by (simp add: save_state_def PlaylistManager_init_def load_settings_def)

text \<open>
  Claim C5. The file \<open>example_file\<close> holds a playlist and a \<^verbatim>\<open>wallpaper_state\<close> with
  current wallpaper A and volume 50. Loading it gives the engine that wallpaper and those
  settings. After the playlist manager has loaded the file and saved it again, loading
  gives the engine no current wallpaper and empty settings: \<^verbatim>\<open>save_settings\<close> writes
  its own eight keys only, and the key \<^verbatim>\<open>wallpaper_state\<close> is gone from the file.
  The same happens when the engine saves its state first and the playlist manager saves
  after it, the order in which \<^verbatim>\<open>MainWindow.apply_wallpaper\<close> makes the two calls.
\<close>

theorem save_load_loses_wallpaper_state:
  "current_wallpaper (load_state new_engine example_file) = Some ''A''
   \<and> last_settings (load_state new_engine example_file) = [(''volume'', SInt 50)]
   \<and> current_wallpaper (load_state new_engine
        (snd (save_settings (fst (PlaylistManager_init example_file)) example_file))) = None
   \<and> last_settings (load_state new_engine
        (snd (save_settings (fst (PlaylistManager_init example_file)) example_file))) = []
   \<and> current_wallpaper (load_state new_engine
        (snd (save_settings (fst (PlaylistManager_init example_file))
               (save_state (load_state new_engine example_file) example_file)))) = None"
  by (simp add: example_file_def new_engine_def load_state_def save_state_def save_settings_def
        settings_data_def empty_json_def get_default_def)

subsection \<open>Random advance\<close>

lemma last_n_append: "last_n k (xs @ ys) = last_n k (last_n k xs @ ys)"
proof (cases "length xs \<le> k")
  case True
  then show ?thesis by (simp add: last_n_def)
next
  case False
  have e: "length ys + (length xs - k) = length xs + length ys - k" using False by arith
  have d: "drop (length ys) (drop (length xs - k) xs) = drop (length xs + length ys - k) xs"
    unfolding drop_drop e ..
  have l: "length (drop (length xs - k) xs) = k" using False by simp
  have "last_n k (last_n k xs @ ys)
      = drop (length ys) (drop (length xs - k) xs) @ drop (length ys - k) ys"
    unfolding last_n_def using l by simp
  moreover have "last_n k (xs @ ys) = drop (length xs + length ys - k) xs @ drop (length ys - k) ys"
    unfolding last_n_def using False by simp
  ultimately show ?thesis using d by simp
qed

lemma in_last_n: "i < length xs \<Longrightarrow> length xs - i \<le> k \<Longrightarrow> xs ! i \<in> set (last_n k xs)"
proof -
  assume a: "i < length xs" "length xs - i \<le> k"
  have "xs ! i = drop (length xs - k) xs ! (i - (length xs - k))" using a by simp
  moreover have "i - (length xs - k) < length (drop (length xs - k) xs)" using a by simp
  ultimately show ?thesis unfolding last_n_def by (metis nth_mem)
qed

lemma last_n_tl: "length xs > 10 \<Longrightarrow> last_n 5 (tl xs) = last_n 5 xs"
proof (cases xs)
  case Nil then show ?thesis by simp
next
  case (Cons a list)
  assume "length xs > 10"
  then have "Suc (length list) - 5 = Suc (length list - 5)" using Cons by simp
  then show ?thesis using Cons by (simp add: last_n_def)
qed

text \<open>Only the last five entries of the history matter.\<close>

lemma avoids_cong: "last_n 5 h = last_n 5 h' \<Longrightarrow> avoids h ws = avoids h' ws"
proof (induction ws arbitrary: h h')
  case Nil then show ?case by simp
next
  case (Cons w ws)
  have "last_n 5 (h @ [w]) = last_n 5 (h' @ [w])"
    using Cons.prems last_n_append[of 5 h "[w]"] last_n_append[of 5 h' "[w]"] by simp
  then show ?case using Cons.IH[of "h @ [w]" "h' @ [w]"] Cons.prems by simp
qed

lemma card_last5: "card (set (last_n 5 h)) \<le> 5"
proof -
  have "card (set (last_n 5 h)) \<le> length (last_n 5 h)" by (rule card_length)
  also have "\<dots> \<le> 5" by (simp add: last_n_def)
  finally show ?thesis .
qed

text \<open>With six distinct identifiers, five recent picks cannot exclude them all.\<close>

lemma available_nonempty:
  assumes "6 \<le> card (set pl)"
  shows "filter (\<lambda>w. w \<notin> set (last_n 5 h)) pl \<noteq> []"
proof
  assume "filter (\<lambda>w. w \<notin> set (last_n 5 h)) pl = []"
  then have "set pl \<subseteq> set (last_n 5 h)" by (auto simp: filter_empty_conv)
  then have "card (set pl) \<le> card (set (last_n 5 h))" by (simp add: card_mono)
  with card_last5[of h] assms show False by simp
qed

lemma avoids_nth:
  "avoids h ws \<Longrightarrow> j < length ws \<Longrightarrow> ws ! j \<notin> set (last_n 5 (h @ take j ws))"
proof (induction ws arbitrary: h j)
  case Nil then show ?case by simp
next
  case (Cons w ws)
  show ?case
  proof (cases j)
    case 0 then show ?thesis using Cons.prems by simp
  next
    case (Suc k)
    then show ?thesis using Cons.prems Cons.IH[of "h @ [w]" k] by simp
  qed
qed

lemma avoids_no_repeat: "avoids h ws \<Longrightarrow> no_repeat_within 5 ws"
  unfolding no_repeat_within_def
proof (intro allI impI)
  fix j i assume a: "avoids h ws" "j < length ws" "i < j" "j - i \<le> 5"
  have "ws ! j \<notin> set (last_n 5 (h @ take j ws))" using avoids_nth[OF a(1,2)] .
  moreover have "(h @ take j ws) ! (length h + i) \<in> set (last_n 5 (h @ take j ws))"
    using a by (intro in_last_n) auto
  moreover have "(h @ take j ws) ! (length h + i) = ws ! i" using a by (simp add: nth_append)
  ultimately show "ws ! i \<noteq> ws ! j" by metis
qed

text \<open>One call of \<^verbatim>\<open>_Get_Random_Wallpaper\<close> on a playlist of six distinct identifiers.\<close>

lemma Get_Random_Wallpaper_step:
  assumes "6 \<le> card (set (ps_current_playlist st))"
  shows "\<exists>w st' fs'. Get_Random_Wallpaper r st fs = Inr (w, st', fs')
     \<and> w \<notin> set (last_n 5 (shuffle_history st))
     \<and> w \<in> set (ps_current_playlist st)
     \<and> ps_current_playlist st' = ps_current_playlist st
     \<and> last_n 5 (shuffle_history st') = last_n 5 (shuffle_history st @ [w])"
proof -
  define av where "av = filter (\<lambda>w. w \<notin> set (last_n 5 (shuffle_history st))) (ps_current_playlist st)"
  have ne: "av \<noteq> []" unfolding av_def using available_nonempty[OF assms] .
  define w where "w = av ! (r mod length av)"
  have "w \<in> set av" unfolding w_def using ne by simp
  then have w: "w \<notin> set (last_n 5 (shuffle_history st))" "w \<in> set (ps_current_playlist st)"
    unfolding av_def by auto
  define h' where "h' = shuffle_history st @ [w]"
  define h'' where "h'' = (if length h' > 10 then tl h' else h')"
  have l: "last_n 5 h'' = last_n 5 h'" unfolding h''_def by (simp add: last_n_tl)
  have "Get_Random_Wallpaper r st fs
      = Inr (w, st\<lparr> shuffle_history := h'' \<rparr>, Save_Settings (st\<lparr> shuffle_history := h'' \<rparr>) fs)"
    using ne unfolding Get_Random_Wallpaper_def random_choice_def Let_def
      av_def [symmetric] w_def h'_def h''_def
    by simp
  then show ?thesis using w l unfolding h'_def by simp
qed

lemma random_run_avoids:
  assumes "6 \<le> card (set (ps_current_playlist st))"
  shows "\<exists>ws. random_run rs st fs = Inr (map Some ws) \<and> length ws = length rs
      \<and> set ws \<subseteq> set (ps_current_playlist st) \<and> avoids (shuffle_history st) ws"
  using assms
proof (induction rs arbitrary: st fs)
  case Nil
  then show ?case by simp
next
  case (Cons r rs)
  from Get_Random_Wallpaper_step[OF Cons.prems, of r fs] obtain w st' fs' where
    s: "Get_Random_Wallpaper r st fs = Inr (w, st', fs')"
       "w \<notin> set (last_n 5 (shuffle_history st))" "w \<in> set (ps_current_playlist st)"
       "ps_current_playlist st' = ps_current_playlist st"
       "last_n 5 (shuffle_history st') = last_n 5 (shuffle_history st @ [w])" by blast
  have "6 \<le> card (set (ps_current_playlist st'))" using s(4) Cons.prems by simp
  from Cons.IH[OF this, of fs'] obtain ws where
    w: "random_run rs st' fs' = Inr (map Some ws)" "length ws = length rs"
       "set ws \<subseteq> set (ps_current_playlist st')" "avoids (shuffle_history st') ws" by blast
  have ne: "ps_current_playlist st \<noteq> []" using Cons.prems by auto
  have a: "avoids (shuffle_history st @ [w]) ws" using w(4) avoids_cong[OF s(5)] by simp
  have n: "Get_Next_Wallpaper True r st fs = Inr (Some w, st', fs')"
    using s(1) ne by (simp add: Get_Next_Wallpaper_def)
  have "random_run (r # rs) st fs = Inr (map Some (w # ws))" using n w(1) by simp
  moreover have "length (w # ws) = length (r # rs)" using w(2) by simp
  moreover have "set (w # ws) \<subseteq> set (ps_current_playlist st)" using s(3,4) w(3) by simp
  moreover have "avoids (shuffle_history st) (w # ws)" using s(2) a by simp
  ultimately show ?case by blast
qed

text \<open>
  Claim C4, as stated, on \<^verbatim>\<open>PlaylistManager.get_next_wallpaper\<close>: the playlist has six
  distinct identifiers, and two consecutive random advances whose random outcome is 0 both
  return A. The function keeps no recency buffer.
\<close>

theorem get_next_wallpaper_random_repeats:
  "fst (get_next_wallpaper True 0 playlist_six no_file) = Some ''A''
   \<and> fst (get_next_wallpaper True 0
            (fst (snd (get_next_wallpaper True 0 playlist_six no_file)))
            (snd (snd (get_next_wallpaper True 0 playlist_six no_file)))) = Some ''A''"
  by (simp add: get_next_wallpaper_def playlist_six_def init_fields_def Let_def randint0_def
        get_current_wallpaper_def)

text \<open>
  Claim C4, amended. In the refactored flow, on a playlist with at least six distinct
  identifiers, any number of consecutive \<^verbatim>\<open>Get_Next_Wallpaper(True)\<close> calls (ten among
  them), for every outcome of the random choices: no call raises, each call returns an
  identifier of the playlist, the first identifiers returned are none of the last five
  entries of the shuffle history the run started with, and no identifier returned equals
  one returned in the five calls before it.
\<close>

theorem refactored_random_avoids_recent:
  assumes "6 \<le> card (set (ps_current_playlist st))"
  shows "\<exists>ws. random_run rs st fs = Inr (map Some ws) \<and> length ws = length rs
      \<and> set ws \<subseteq> set (ps_current_playlist st)
      \<and> avoids (shuffle_history st) ws \<and> no_repeat_within 5 ws"
  using random_run_avoids[OF assms, of rs fs] avoids_no_repeat by blast

theorem refactored_random_avoids_recent_witness:
  "6 \<le> card (set (ps_current_playlist state_six))
   \<and> random_run [0, 0, 0, 0, 0, 0, 0, 0, 0, 0] state_six no_file
       = Inr (map Some [''A'', ''B'', ''C'', ''D'', ''E'', ''F'', ''A'', ''B'', ''C'', ''D''])
   \<and> (\<exists>ws. random_run [0, 0, 0, 0, 0, 0, 0, 0, 0, 0] state_six no_file = Inr (map Some ws)
         \<and> length ws = 10 \<and> no_repeat_within 5 ws)"
proof -
  have h: "6 \<le> card (set (ps_current_playlist state_six))"
    by (simp add: state_six_def)
  have r: "random_run [0, 0, 0, 0, 0, 0, 0, 0, 0, 0] state_six no_file
       = Inr (map Some [''A'', ''B'', ''C'', ''D'', ''E'', ''F'', ''A'', ''B'', ''C'', ''D''])"
    by (simp add: state_six_def no_file_def Get_Next_Wallpaper_def Get_Random_Wallpaper_def
          random_choice_def last_n_def Save_Settings_def Let_def)
  from refactored_random_avoids_recent [OF h, of "[0, 0, 0, 0, 0, 0, 0, 0, 0, 0]" no_file]
  obtain ws where w: "random_run [0, 0, 0, 0, 0, 0, 0, 0, 0, 0] state_six no_file = Inr (map Some ws)"
    "length ws = length [0::nat, 0, 0, 0, 0, 0, 0, 0, 0, 0]" "no_repeat_within 5 ws"
    by blast
  have "length ws = 10" using w(2) by simp
  then have "\<exists>ws. random_run [0, 0, 0, 0, 0, 0, 0, 0, 0, 0] state_six no_file = Inr (map Some ws)
         \<and> length ws = 10 \<and> no_repeat_within 5 ws"
    using w(1,3) by blast
  then show ?thesis using h r by blast
qed

text \<open>
  Six distinct identifiers are needed, five are not enough: with the playlist
  A, B, C, D, E, E and a history that holds all five, nothing is available, the history
  is reset and the call returns A, which is among the last five picks.
\<close>

lemma refactored_five_distinct_repeats:
  "card (set (ps_current_playlist state_five_distinct)) = 5
   \<and> last_n 5 (shuffle_history state_five_distinct) = [''A'', ''B'', ''C'', ''D'', ''E'']
   \<and> random_run [0] state_five_distinct no_file = Inr [Some ''A'']"
  by (simp add: state_five_distinct_def state_six_def no_file_def Get_Next_Wallpaper_def
        Get_Random_Wallpaper_def random_choice_def last_n_def Save_Settings_def Let_def)

subsection \<open>Substrings\<close>

text \<open>
  \<open>contains\<close> decides \<open>is_substring\<close>, and every group the patterns extract is a
  substring of the text searched.
\<close>

lemma startswith_iff: "startswith s p \<longleftrightarrow> (\<exists>b. s = p @ b)"
  by (induction s p rule: startswith.induct) auto

lemma contains_iff: "contains s p \<longleftrightarrow> is_substring p s"
proof (induction s)
  case Nil
  then show ?case by (auto simp: is_substring_def)
next
  case (Cons c cs)
  show ?case
  proof
    assume "contains (c # cs) p"
    then consider "startswith (c # cs) p" | "contains cs p" by auto
    then show "is_substring p (c # cs)"
    proof cases
      case 1
      then obtain b where "c # cs = p @ b" using startswith_iff by blast
      then have "c # cs = [] @ p @ b" by simp
      then show ?thesis unfolding is_substring_def by blast
    next
      case 2
      then obtain a b where "cs = a @ p @ b" using Cons.IH unfolding is_substring_def by blast
      then have "c # cs = (c # a) @ p @ b" by simp
      then show ?thesis unfolding is_substring_def by blast
    qed
  next
    assume "is_substring p (c # cs)"
    then obtain a b where ab: "c # cs = a @ p @ b" unfolding is_substring_def by blast
    show "contains (c # cs) p"
    proof (cases a)
      case Nil
      then have "startswith (c # cs) p" using ab startswith_iff by auto
      then show ?thesis by simp
    next
      case (Cons x a')
      then have "cs = a' @ p @ b" using ab by simp
      then have "contains cs p" using Cons.IH unfolding is_substring_def by blast
      then show ?thesis by simp
    qed
  qed
qed

lemma is_substring_trans: "is_substring p q \<Longrightarrow> is_substring q s \<Longrightarrow> is_substring p s"
proof -
  assume "is_substring p q" "is_substring q s"
  then obtain a b c d where "q = a @ p @ b" "s = c @ q @ d" unfolding is_substring_def by blast
  then have "s = (c @ a) @ p @ (b @ d)" by simp
  then show ?thesis unfolding is_substring_def by blast
qed

lemma is_substring_Cons: "is_substring p s \<Longrightarrow> is_substring p (c # s)"
  unfolding is_substring_def by (metis append_Cons)

lemma re_search_sub:
  assumes "\<And>t g. m t = Some g \<Longrightarrow> is_substring g t"
  shows "re_search m s = Some g \<Longrightarrow> is_substring g s"
proof (induction s)
  case Nil
  then show ?case using assms by simp
next
  case (Cons c cs)
  show ?case
  proof (cases "m (c # cs)")
    case None
    then show ?thesis using Cons is_substring_Cons by simp
  next
    case (Some g')
    then show ?thesis using Cons.prems assms by simp
  qed
qed

lemma dir_or_slash_suffix: "dir_or_slash t = Some u \<Longrightarrow> \<exists>a. t = a @ u"
proof -
  assume a: "dir_or_slash t = Some u"
  have 1: "\<exists>a. t = a @ dropWhile isspace (drop 5 t)"
    by (metis append_take_drop_id takeWhile_dropWhile_id append.assoc)
  have 2: "\<exists>a. t = a @ drop 1 t" by (metis append_take_drop_id)
  have "u = dropWhile isspace (drop 5 t) \<or> u = drop 1 t"
    using a unfolding dir_or_slash_def by (auto split: if_splits)
  then show ?thesis
  proof
    assume "u = dropWhile isspace (drop 5 t)" then show ?thesis using 1 by simp
  next
    assume "u = drop 1 t" then show ?thesis using 2 by simp
  qed
qed

lemma workshop_group_prefix: "workshop_group u = Some d \<Longrightarrow> \<exists>b. u = d @ b"
  unfolding workshop_group_def Let_def
  by (metis option.inject option.distinct(1) takeWhile_dropWhile_id)

lemma numbered_group_prefix: "numbered_group word u = Some g \<Longrightarrow> \<exists>b. u = g @ b"
proof -
  assume a: "numbered_group word u = Some g"
  then have s: "startswith u word" and g: "g = word @ takeWhile isdecimal (drop (length word) u)"
    unfolding numbered_group_def Let_def by (auto split: if_splits)
  from s obtain r where r: "u = word @ r" using startswith_iff by blast
  then have "drop (length word) u = r" by simp
  then have "u = g @ dropWhile isdecimal r" using g r by simp
  then show ?thesis by blast
qed

lemma custom_group_prefix: "custom_group u = Some g \<Longrightarrow> \<exists>b. u = g @ b"
  unfolding custom_group_def using numbered_group_prefix by (auto split: option.splits)

lemma workshop_pattern_sub: "workshop_pattern s = Some g \<Longrightarrow> is_substring g s"
  unfolding workshop_pattern_def
proof (rule re_search_sub)
  fix t g assume "(case dir_or_slash t of None \<Rightarrow> None | Some u \<Rightarrow> workshop_group u) = Some g"
  then obtain u where "dir_or_slash t = Some u" "workshop_group u = Some g"
    by (auto split: option.splits)
  then obtain a b where "t = a @ u" "u = g @ b"
    using dir_or_slash_suffix workshop_group_prefix by blast
  then show "is_substring g t" unfolding is_substring_def by blast
qed

lemma custom_pattern_sub: "custom_pattern s = Some g \<Longrightarrow> is_substring g s"
  unfolding custom_pattern_def
proof (rule re_search_sub)
  fix t g assume "(case dir_or_slash t of None \<Rightarrow> None | Some u \<Rightarrow> custom_group u) = Some g"
  then obtain u where "dir_or_slash t = Some u" "custom_group u = Some g"
    by (auto split: option.splits)
  then obtain a b where "t = a @ u" "u = g @ b"
    using dir_or_slash_suffix custom_group_prefix by blast
  then show "is_substring g t" unfolding is_substring_def by blast
qed

lemma content_group_sub: "content_group t = Some w \<Longrightarrow> is_substring w t"
proof -
  assume a: "content_group t = Some w"
  let ?p = "''/steamapps/workshop/content/431960/''"
  from a have s: "startswith t ?p" and w: "w = takeWhile isword (drop (length ?p) t)"
    unfolding content_group_def Let_def by (auto split: if_splits)
  from s obtain r where r: "t = ?p @ r" using startswith_iff by blast
  then have "drop (length ?p) t = r" by simp
  then have "t = ?p @ w @ dropWhile isword r" using w r by simp
  then show ?thesis unfolding is_substring_def by blast
qed

lemma content_pattern_sub: "content_pattern s = Some g \<Longrightarrow> is_substring g s"
  unfolding content_pattern_def using content_group_sub by (rule re_search_sub)

lemma join_spaces_sub: "x \<in> set xs \<Longrightarrow> is_substring x (join_spaces xs)"
proof (induction xs rule: join_spaces.induct)
  case 1
  then show ?case by simp
next
  case (2 y)
  then have "join_spaces [y] = [] @ x @ []" by simp
  then show ?case unfolding is_substring_def by blast
next
  case (3 y z r)
  show ?case
  proof (cases "x = y")
    case True
    then have "join_spaces (y # z # r) = [] @ x @ (CHR '' '' # join_spaces (z # r))" by simp
    then show ?thesis unfolding is_substring_def by blast
  next
    case False
    then have "x \<in> set (z # r)" using 3 by simp
    then obtain a b where "join_spaces (z # r) = a @ x @ b" using 3 unfolding is_substring_def by blast
    then have "join_spaces (y # z # r) = (y @ CHR '' '' # a) @ x @ b" by simp
    then show ?thesis unfolding is_substring_def by blast
  qed
qed

lemma split_on_nonempty: "split_on c s \<noteq> []"
  by (induction s) (auto split: list.splits)

lemma split_on_sub: "w \<in> set (split_on c s) \<Longrightarrow> is_substring w s"
proof (induction s arbitrary: w)
  case Nil
  then show ?case by (simp add: is_substring_def)
next
  case (Cons x xs)
  show ?case
  proof (cases "x = c")
    case True
    then have "w = [] \<or> w \<in> set (split_on c xs)" using Cons.prems by auto
    then show ?thesis
    proof
      assume "w = []"
      then have "x # xs = [] @ w @ (x # xs)" by simp
      then show ?thesis unfolding is_substring_def by blast
    next
      assume "w \<in> set (split_on c xs)"
      then show ?thesis using Cons.IH is_substring_Cons by blast
    qed
  next
    case False
    obtain v vs where v: "split_on c xs = v # vs" using split_on_nonempty by (cases "split_on c xs") auto
    then have "w = x # v \<or> w \<in> set vs" using Cons.prems False by auto
    then show ?thesis
    proof
      assume w: "w = x # v"
      have "v \<in> set (split_on c xs)" using v by simp
      moreover have "hd (split_on c xs) = v" using v by simp
      have p: "\<exists>b. xs = v @ b" using v
      proof (induction xs arbitrary: v vs)
        case Nil then show ?case by simp
      next
        case (Cons y ys)
        then show ?case by (auto split: if_splits list.splits)
      qed
      then obtain b where "xs = v @ b" by blast
      then have "x # xs = [] @ w @ b" using w by simp
      then show ?thesis unfolding is_substring_def by blast
    next
      assume "w \<in> set vs"
      then have "w \<in> set (split_on c xs)" using v by simp
      then show ?thesis using Cons.IH is_substring_Cons by blast
    qed
  qed
qed

lemma path_parent_name_sub: "path_parent_name arg \<noteq> [] \<Longrightarrow> is_substring (path_parent_name arg) arg"
proof -
  assume a: "path_parent_name arg \<noteq> []"
  define parts where "parts = filter (\<lambda>c. c \<noteq> [] \<and> c \<noteq> ''.'') (split_on (CHR ''/'') arg)"
  have l: "2 \<le> length parts" and e: "path_parent_name arg = parts ! (length parts - 2)"
    using a unfolding path_parent_name_def path_components_def parts_def Let_def
    by (auto split: if_splits)
  have "parts ! (length parts - 2) \<in> set parts" using l by simp
  then have "path_parent_name arg \<in> set (split_on (CHR ''/'') arg)" using e unfolding parts_def by auto
  then show ?thesis by (rule split_on_sub)
qed

lemma video_arg_id_sub: "video_arg_id args = Some w \<Longrightarrow> \<exists>arg \<in> set args. is_substring w arg"
proof (induction args)
  case Nil then show ?case by simp
next
  case (Cons arg args)
  show ?case
  proof (cases "contains arg ''/431960/'' \<and> potential_id (path_parent_name arg)")
    case True
    then have w: "w = path_parent_name arg" "path_parent_name arg \<noteq> []"
      using Cons.prems by (auto simp: potential_id_def)
    then show ?thesis using path_parent_name_sub by auto
  next
    case False
    then show ?thesis using Cons by auto
  qed
qed

lemma renderer_id_sub: "renderer_id p = Some w \<Longrightarrow> is_renderer p \<and> is_substring w (cmdline_str p)"
  unfolding renderer_id_def
  using workshop_pattern_sub custom_pattern_sub by (auto split: if_splits option.splits)

lemma video_id_sub: "video_id p = Some w \<Longrightarrow> is_video_tool p \<and> is_substring w (cmdline_str p)"
proof -
  assume a: "video_id p = Some w"
  then have v: "is_video_tool p" unfolding video_id_def by (auto split: if_splits)
  have "content_pattern (cmdline_str p) = Some w \<or> video_arg_id (cmdline p) = Some w"
    using a v unfolding video_id_def by (auto split: option.splits)
  then have "is_substring w (cmdline_str p)"
  proof
    assume "content_pattern (cmdline_str p) = Some w" then show ?thesis by (rule content_pattern_sub)
  next
    assume "video_arg_id (cmdline p) = Some w"
    then obtain arg where "arg \<in> set (cmdline p)" "is_substring w arg" using video_arg_id_sub by blast
    then show ?thesis unfolding cmdline_str_def using join_spaces_sub is_substring_trans by blast
  qed
  then show ?thesis using v by simp
qed


lemma first_id_mem: "first_id f ps = Some w \<Longrightarrow> \<exists>p \<in> set ps. f p = Some w"
  by (induction ps) (auto split: option.splits)

subsection \<open>Detection and reconciliation\<close>

lemma truthy_Some [simp]: "truthy (Some c) \<longleftrightarrow> c \<noteq> []"
  by (simp add: truthy_def)

lemma truthy_None [simp]: "\<not> truthy None"
  by (simp add: truthy_def)

lemma truthyD: "truthy v \<Longrightarrow> \<exists>c. v = Some c \<and> c \<noteq> []"
  by (cases v) auto

lemma detect_Some:
  assumes "fst (detect_active_wallpaper eng pm fs env) = Some c"
  shows "c \<noteq> [] \<and> fst (snd (snd (detect_active_wallpaper eng pm fs env))) = pm
     \<and> snd (snd (snd (detect_active_wallpaper eng pm fs env))) = fs"
  using assms unfolding detect_active_wallpaper_def Let_def
  by (auto split: if_splits dest: truthyD)

lemma restore_playlist_frame:
  "is_playing (app_pm (restore_playlist a)) = is_playing (app_pm a)
   \<and> w_items (app_widget (restore_playlist a)) = w_items (app_widget a)
   \<and> writable (app_fs (restore_playlist a)) = writable (app_fs a)
   \<and> app_env (restore_playlist a) = app_env a
   \<and> app_engine (restore_playlist a) = app_engine a
   \<and> app_toasts (restore_playlist a) = app_toasts a"
  unfolding restore_playlist_def Let_def save_settings_def by simp

lemmas probe_eval = renderer_proc_def detect_from_linux_wallpaperengine_process_def
  renderer_id_def is_renderer_def cmdline_str_def workshop_pattern_def custom_pattern_def
  dir_or_slash_def workshop_group_def custom_group_def numbered_group_def id_terminator_def
  isspace_def isdecimal_def Let_def detect_from_video_wallpaper_process_def video_id_def
  is_video_tool_def detect_from_swww_def verify_wallpaper_process_running_def
  is_swww_wallpaper_active_def

text \<open>
  Claim C1. \<^verbatim>\<open>_restore_app_state\<close> starts with \<open>is_playing\<close> true (as loaded from
  the settings file), its call of \<^verbatim>\<open>_detect_active_wallpaper\<close> returns an identifier C,
  and C is not among the rows of the playlist widget. If the settings file can be
  written, then afterwards \<open>is_playing\<close> is false, the playlist timer is stopped, the
  widget shows C as the current wallpaper and its play button as stopped, the file holds
  \<open>is_playing = false\<close>, and the toast is the one for a manual wallpaper that stopped the
  playlist.
\<close>

theorem reconcile_conflict_stops_playlist:
  assumes "is_playing (app_pm a)" "detected_wallpaper a = Some C"
    "C \<notin> set (get_playlist_items (app_widget a))" "writable (app_fs a)"
  shows "\<not> is_playing (app_pm (restore_app_state a))
    \<and> \<not> active (app_timer (restore_app_state a))
    \<and> \<not> w_is_playing (app_widget (restore_app_state a))
    \<and> w_current_wallpaper (app_widget (restore_app_state a)) = Some C
    \<and> (\<exists>d. settings_file (app_fs (restore_app_state a)) = Object d \<and> j_is_playing d = Some False)
    \<and> app_toasts (restore_app_state a) = app_toasts a @ [Manual_playlist_stopped C]"
proof -
  define a1 where "a1 = restore_playlist a"
  obtain cw eng pm fs where d: "detect_active_wallpaper (app_engine a1) (app_pm a1) (app_fs a1) (app_env a1) = (cw, eng, pm, fs)"
    by (cases "detect_active_wallpaper (app_engine a1) (app_pm a1) (app_fs a1) (app_env a1)") auto
  have f: "is_playing (app_pm a1) = is_playing (app_pm a)" "w_items (app_widget a1) = w_items (app_widget a)"
    "writable (app_fs a1) = writable (app_fs a)" "app_env a1 = app_env a" "app_toasts a1 = app_toasts a"
    unfolding a1_def using restore_playlist_frame[of a] by simp_all
  have cw: "cw = Some C" using assms(2) d unfolding detected_wallpaper_def a1_def[symmetric] f(4) [symmetric] by simp
  from detect_Some[of "app_engine a1" "app_pm a1" "app_fs a1" "app_env a1" C] d cw
  have s: "C \<noteq> []" "pm = app_pm a1" "fs = app_fs a1" by simp_all
  define a2 where "a2 = a1\<lparr> app_engine := eng, app_pm := pm, app_fs := fs \<rparr>"
  have r: "restore_app_state a = sync_with_detected C a2"
    unfolding restore_app_state_def a1_def[symmetric] Let_def d a2_def using cw s(1) by simp
  have g: "is_playing (app_pm a2)" "C \<notin> set (get_playlist_items (app_widget a2))" "writable (app_fs a2)"
    "app_toasts a2 = app_toasts a"
    unfolding a2_def using s f assms by (simp_all add: get_playlist_items_def)
  show ?thesis unfolding r sync_with_detected_def Let_def using g
    by (simp add: save_settings_def settings_data_def)
qed

theorem reconcile_conflict_stops_playlist_witness:
  "is_playing (app_pm (app_playing env_one))
   \<and> detected_wallpaper (app_playing env_one) = Some ''12345678''
   \<and> ''12345678'' \<notin> set (get_playlist_items (app_widget (app_playing env_one)))
   \<and> writable (app_fs (app_playing env_one))
   \<and> \<not> is_playing (app_pm (restore_app_state (app_playing env_one)))
   \<and> \<not> active (app_timer (restore_app_state (app_playing env_one)))
   \<and> w_current_wallpaper (app_widget (restore_app_state (app_playing env_one))) = Some ''12345678''"
proof -
  have h1: "is_playing (app_pm (app_playing env_one))"
    by (simp add: app_playing_def init_fields_def)
  have h2: "detected_wallpaper (app_playing env_one) = Some ''12345678''"
    by (simp add: detected_wallpaper_def app_playing_def restore_playlist_def env_one_def
          detect_active_wallpaper_def new_engine_def init_fields_def probe_eval)
  have h3: "''12345678'' \<notin> set (get_playlist_items (app_widget (app_playing env_one)))"
    by (simp add: app_playing_def get_playlist_items_def)
  have h4: "writable (app_fs (app_playing env_one))"
    by (simp add: app_playing_def example_file_def)
  show ?thesis using h1 h2 h3 h4 reconcile_conflict_stops_playlist [OF h1 h2 h3 h4] by blast
qed



text \<open>
  When the detection returns None, \<^verbatim>\<open>_restore_app_state\<close> shows the toast for no
  active wallpaper and leaves the widget and the timer as part 1 set them.
\<close>

lemma restore_app_state_none:
  assumes "detected_wallpaper a = None"
  shows "app_toasts (restore_app_state a) = app_toasts a @ [No_active_wallpaper]
     \<and> app_widget (restore_app_state a) = app_widget (restore_playlist a)
     \<and> app_timer (restore_app_state a) = app_timer (restore_playlist a)"
proof -
  obtain cw eng pm fs where d: "detect_active_wallpaper (app_engine (restore_playlist a)) (app_pm (restore_playlist a)) (app_fs (restore_playlist a)) (app_env (restore_playlist a)) = (cw, eng, pm, fs)"
    by (cases "detect_active_wallpaper (app_engine (restore_playlist a)) (app_pm (restore_playlist a)) (app_fs (restore_playlist a)) (app_env (restore_playlist a))") auto
  have e: "app_env (restore_playlist a) = app_env a" "app_toasts (restore_playlist a) = app_toasts a"
    using restore_playlist_frame[of a] by simp_all
  have "cw = None" using assms d unfolding detected_wallpaper_def e(1)[symmetric] by simp
  then show ?thesis unfolding restore_app_state_def Let_def d using e by simp
qed




text \<open>
  The verification of \<open>i\<close> returns True exactly when \<open>i\<close> is a substring of the
  space-joined command line of some renderer or video-tool process, or the swww probe
  extracts exactly \<open>i\<close>. So it returns True whenever one of the three probes extracts
  \<open>i\<close>.
\<close>

lemma verify_characterisation:
  "verify_wallpaper_process_running i env \<longleftrightarrow>
      (\<exists>p \<in> set (process_table env). (is_renderer p \<or> is_video_tool p) \<and> is_substring i (cmdline_str p))
      \<or> detect_from_swww env = Some i"
  unfolding verify_wallpaper_process_running_def is_swww_wallpaper_active_def list_ex_iff contains_iff
  by blast

lemma probe_implies_verify:
  assumes "detect_from_linux_wallpaperengine_process env = Some i
        \<or> detect_from_video_wallpaper_process env = Some i
        \<or> detect_from_swww env = Some i"
  shows "verify_wallpaper_process_running i env"
proof -
  have 1: "detect_from_linux_wallpaperengine_process env = Some i \<Longrightarrow> verify_wallpaper_process_running i env"
  proof -
    assume "detect_from_linux_wallpaperengine_process env = Some i"
    then obtain p where "p \<in> set (process_table env)" "renderer_id p = Some i"
      unfolding detect_from_linux_wallpaperengine_process_def using first_id_mem by blast
    then show ?thesis using renderer_id_sub verify_characterisation by blast
  qed
  have 2: "detect_from_video_wallpaper_process env = Some i \<Longrightarrow> verify_wallpaper_process_running i env"
  proof -
    assume "detect_from_video_wallpaper_process env = Some i"
    then obtain p where "p \<in> set (process_table env)" "video_id p = Some i"
      unfolding detect_from_video_wallpaper_process_def using first_id_mem by blast
    then show ?thesis using video_id_sub verify_characterisation by blast
  qed
  show ?thesis using assms 1 2 verify_characterisation by blast
qed

text \<open>
  A renderer started by the application itself runs with \<^verbatim>\<open>--bg 1234567890\<close>, the
  bare identifier. No probe extracts it, and the verification of 1234567890 returns True.
\<close>

lemma verify_sees_bare_identifier:
  "verify_wallpaper_process_running ''1234567890'' env_bg
   \<and> detect_from_linux_wallpaperengine_process env_bg = None
   \<and> detect_from_video_wallpaper_process env_bg = None
   \<and> detect_from_swww env_bg = None"
  by (simp add: env_bg_def probe_eval)

text \<open>
  Claim C6. One renderer runs, showing the wallpaper 123456789; the renderer probe
  extracts 123456789 and the two other probes extract nothing. No process runs the
  wallpaper 12345678, whose identifier is a proper substring of the command line. The
  verification of 12345678 returns True all the same, and with 12345678 as the engine's
  cached wallpaper \<^verbatim>\<open>_detect_active_wallpaper\<close> returns 12345678, not the wallpaper
  that is running.
\<close>

theorem verify_accepts_proper_substring:
  "detect_from_linux_wallpaperengine_process env_long = Some ''123456789''
   \<and> detect_from_video_wallpaper_process env_long = None
   \<and> detect_from_swww env_long = None
   \<and> verify_wallpaper_process_running ''12345678'' env_long
   \<and> fst (detect_active_wallpaper (new_engine\<lparr> current_wallpaper := Some ''12345678'' \<rparr>)
            init_fields no_file env_long) = Some ''12345678''"
  by (simp add: env_long_def probe_eval detect_active_wallpaper_def verified_def truthy_def
        new_engine_def)

end
